theory Spec2Isabelle
  imports Complex_Main "HOL-Library.AList"
begin

section \<open>Python values, dictionaries and exceptions\<close>

text \<open>
  The wrappers and the loader of \<^verbatim>\<open>startengine_erc1450\<close> pass around JSON documents
  and plain dictionaries. A Python \<^verbatim>\<open>str\<close> is a \<open>string\<close> (one \<open>char\<close> per code point,
  so \<open>length\<close> is Python's \<^verbatim>\<open>len\<close>), an \<^verbatim>\<open>int\<close> is an unbounded \<open>int\<close>, and a
  \<^verbatim>\<open>dict\<close> with string keys is an association list in insertion order, read with
  \<open>map_of\<close> and written with \<open>AList.update\<close>.
\<close>

datatype pyval =
    PNone
  | PBool bool
  | PInt int
  | PStr string
  | PList "pyval list"
  | PTuple "pyval list"
  | PDict "(string \<times> pyval) list"

type_synonym pydict = "(string \<times> pyval) list"

text \<open>
  The exceptions the modelled code raises. \<open>JSONDecodeError\<close> is what \<^verbatim>\<open>json.load\<close>
  raises on a malformed file (a subclass of \<^verbatim>\<open>ValueError\<close> in Python), \<open>OSError\<close> stands
  for what \<^verbatim>\<open>open\<close> raises on a path that exists and cannot be read, \<open>KeyError\<close> is
  the failure of a dictionary subscript, and \<open>OverflowError\<close> is raised where a number is
  too large for a float.
\<close>

datatype exn =
    ValueError string
  | FileNotFoundError string
  | JSONDecodeError
  | OSError
  | KeyError string
  | OverflowError

text \<open>\<^verbatim>\<open>d.get(key)\<close>: the value stored under the key, \<^verbatim>\<open>None\<close> when there is none.\<close>

definition dict_get :: "pydict \<Rightarrow> string \<Rightarrow> pyval" where
  "dict_get d k = (case map_of d k of None \<Rightarrow> PNone | Some v \<Rightarrow> v)"

text \<open>\<^verbatim>\<open>s.startswith(p)\<close>.\<close>

definition startswith :: "string \<Rightarrow> string \<Rightarrow> bool" where
  "startswith s p = (take (length p) s = p)"

text \<open>\<^verbatim>\<open>sep.join(xs)\<close>.\<close>

fun join :: "string \<Rightarrow> string list \<Rightarrow> string" where
  "join sep [] = []"
| "join sep [x] = x"
| "join sep (x # y # ys) = x @ sep @ join sep (y # ys)"

text \<open>The decimal rendering of an integer, as an f-string interpolates it.\<close>

fun str_nat :: "nat \<Rightarrow> string" where
  "str_nat n =
     (if n < 10 then [''0123456789'' ! n]
      else str_nat (n div 10) @ [''0123456789'' ! (n mod 10)])"

definition str_int :: "int \<Rightarrow> string" where
  "str_int i = (if i < 0 then ''-'' @ str_nat (nat (- i)) else str_nat (nat i))"

section \<open>The contract wrappers\<close>

text \<open>
  Both wrapper classes hold the ABI (a list of descriptors, each a dictionary) and the
  bytecode they loaded when they were constructed.
\<close>

record contract =
  abi :: "pydict list"
  bytecode :: string

subsection \<open>ERC1450Contract\<close>

text \<open>
  \<^verbatim>\<open>ERC1450Contract.encode_constructor_params\<close>: six checks in the source's order, each
  raising \<^verbatim>\<open>ValueError\<close> with its message, then the dictionary of the five parameters.
\<close>

definition ERC1450Contract_encode_constructor_params ::
  "contract \<Rightarrow> string \<Rightarrow> string \<Rightarrow> int \<Rightarrow> int \<Rightarrow> string \<Rightarrow> exn + pydict" where
  "ERC1450Contract_encode_constructor_params self name symbol decimals total_supply rta_address =
     (if name = [] then Inl (ValueError ''Token name is required'')
      else if symbol = [] then Inl (ValueError ''Token symbol is required'')
      else if decimals < 0 \<or> decimals > 18 then
        Inl (ValueError ''Decimals must be between 0 and 18'')
      else if total_supply \<le> 0 then
        Inl (ValueError ''Total supply must be greater than 0'')
      else if rta_address = [] \<or> \<not> startswith rta_address ''0x'' then
        Inl (ValueError ''Invalid RTA address'')
      else if length rta_address \<noteq> 42 then
        Inl (ValueError ''RTA address must be 42 characters'')
      else Inr
        [(''_name'', PStr name),
         (''_symbol'', PStr symbol),
         (''_decimals'', PInt decimals),
         (''_totalSupply'', PInt total_supply),
         (''_rta'', PStr rta_address)])"

text \<open>
  The loop of \<^verbatim>\<open>prepare_transaction\<close> (and of \<^verbatim>\<open>decode_event\<close>), written inline in
  both wrappers: the first descriptor of the ABI whose \<^verbatim>\<open>type\<close> and \<^verbatim>\<open>name\<close> are the wanted
  ones, \<^verbatim>\<open>None\<close> when the loop ends without a \<^verbatim>\<open>break\<close>.
\<close>

fun scan_abi :: "string \<Rightarrow> string \<Rightarrow> pydict list \<Rightarrow> pydict option" where
  "scan_abi kind function_name [] = None"
| "scan_abi kind function_name (item # items) =
     (if dict_get item ''type'' = PStr kind \<and> dict_get item ''name'' = PStr function_name
      then Some item
      else scan_abi kind function_name items)"

text \<open>
  \<^verbatim>\<open>ERC1450Contract.prepare_transaction(function_name, *args, **kwargs)\<close>. The test
  \<^verbatim>\<open>if not function_abi\<close> is true for \<^verbatim>\<open>None\<close> and for an empty dictionary. The returned
  dictionary has the keys \<^verbatim>\<open>function\<close>, \<^verbatim>\<open>args\<close> and \<^verbatim>\<open>abi\<close>; the source never reads
  \<^verbatim>\<open>kwargs\<close>.
\<close>

definition ERC1450Contract_prepare_transaction ::
  "contract \<Rightarrow> string \<Rightarrow> pyval list \<Rightarrow> pydict \<Rightarrow> exn + pydict" where
  "ERC1450Contract_prepare_transaction self function_name args kwargs =
     (case scan_abi ''function'' function_name (abi self) of
        None \<Rightarrow> Inl (ValueError (''Function '' @ function_name @ '' not found in ABI''))
      | Some function_abi \<Rightarrow>
          if function_abi = [] then
            Inl (ValueError (''Function '' @ function_name @ '' not found in ABI''))
          else Inr
            [(''function'', PStr function_name),
             (''args'', PTuple args),
             (''abi'', PDict function_abi)])"

definition prepare_transfer_function ::
  "contract \<Rightarrow> string \<Rightarrow> string \<Rightarrow> int \<Rightarrow> exn + pydict" where
  "prepare_transfer_function self from_address to_address amount =
     ERC1450Contract_prepare_transaction self ''transfer''
       [PStr from_address, PStr to_address, PInt amount] []"

definition prepare_mint_function :: "contract \<Rightarrow> string \<Rightarrow> int \<Rightarrow> exn + pydict" where
  "prepare_mint_function self to_address amount =
     ERC1450Contract_prepare_transaction self ''mint'' [PStr to_address, PInt amount] []"

definition prepare_burn_function :: "contract \<Rightarrow> string \<Rightarrow> int \<Rightarrow> exn + pydict" where
  "prepare_burn_function self from_address amount =
     ERC1450Contract_prepare_transaction self ''burn'' [PStr from_address, PInt amount] []"

definition ERC1450Contract_estimate_deployment_gas :: "contract \<Rightarrow> string \<Rightarrow> string \<Rightarrow> int" where
  "ERC1450Contract_estimate_deployment_gas self name symbol =
     (let base_gas = 2000000;
          string_gas = (int (length name) + int (length symbol)) * 1000
      in base_gas + string_gas)"

subsection \<open>Token amounts: Python floats\<close>

text \<open>
  \<^verbatim>\<open>calculate_token_amount\<close> and \<^verbatim>\<open>format_token_amount\<close> compute with Python floats,
  which are IEEE 754 binary64 numbers. A finite float is the rational number it denotes,
  and every operation computes the exact rational result and rounds it to the nearest
  binary64 number, a tie going to the even significand. Infinities and NaN are not
  values of the model: where Python would produce one, the functions below raise as
  Python does when the result is converted.

  \<open>bit_length i\<close> is Python's \<^verbatim>\<open>i.bit_length()\<close> for a positive \<open>i\<close>, and \<open>expo q\<close> is the
  binary exponent of a non-zero \<open>q\<close>: the \<open>e\<close> with \<open>2 ^ e \<le> \<bar>q\<bar> < 2 ^ (e + 1)\<close>.
\<close>

function bit_length :: "int \<Rightarrow> int" where
  "bit_length i = (if i \<le> 0 then 0 else 1 + bit_length (i div 2))"
  by pat_completeness auto
termination
  by (relation "measure nat") auto

declare bit_length.simps [simp del]

definition expo :: "rat \<Rightarrow> int" where
  "expo q =
     (let (a, b) = quotient_of \<bar>q\<bar>;
          k = bit_length a - bit_length b
      in if 2 powi k \<le> \<bar>q\<bar> then k else k - 1)"

definition round_half_even :: "rat \<Rightarrow> int" where
  "round_half_even q =
     (let f = \<lfloor>q\<rfloor>; r = q - of_int f
      in if r < 1 / 2 then f
         else if r > 1 / 2 then f + 1
         else if even f then f else f + 1)"

text \<open>
  Rounding to binary64: the significand has 53 bits, so the unit in the last place of
  \<open>q\<close> is \<open>2 ^ (expo q - 52)\<close>, and not below \<open>2 ^ - 1074\<close>, the spacing of the subnormal
  numbers. The result is \<open>None\<close> when the rounded number has an exponent above 1023,
  that is when it is too large for a float.
\<close>

definition round64 :: "rat \<Rightarrow> rat option" where
  "round64 q =
     (if q = 0 then Some 0
      else
        (let p = max (expo q - 52) (- 1074);
             r = of_int (round_half_even (q / 2 powi p)) * 2 powi p
         in if r \<noteq> 0 \<and> expo r \<ge> 1024 then None else Some r))"





subsection \<open>RTAProxyContract\<close>

text \<open>
  \<^verbatim>\<open>RTAProxyContract.encode_constructor_params\<close>: four checks in the source's order, then
  the dictionary of the two parameters. \<^verbatim>\<open>len(signers) != len(set(signers))\<close> compares the
  length of the list with the number of its distinct elements.
\<close>

definition RTAProxyContract_encode_constructor_params ::
  "contract \<Rightarrow> string list \<Rightarrow> int \<Rightarrow> exn + pydict" where
  "RTAProxyContract_encode_constructor_params self signers required_signatures =
     (if signers = [] then Inl (ValueError ''At least one signer is required'')
      else if required_signatures \<le> 0 then
        Inl (ValueError ''Required signatures must be greater than 0'')
      else if required_signatures > int (length signers) then
        Inl (ValueError
          (''Required signatures ('' @ str_int required_signatures @ '') cannot exceed ''
           @ ''number of signers ('' @ str_int (int (length signers)) @ '')''))
      else if length signers \<noteq> card (set signers) then
        Inl (ValueError ''Duplicate signers not allowed'')
      else Inr
        [(''_signers'', PList (map PStr signers)),
         (''_requiredSignatures'', PInt required_signatures)])"

definition RTAProxyContract_prepare_transaction ::
  "contract \<Rightarrow> string \<Rightarrow> pyval list \<Rightarrow> pydict \<Rightarrow> exn + pydict" where
  "RTAProxyContract_prepare_transaction self function_name args kwargs =
     (case scan_abi ''function'' function_name (abi self) of
        None \<Rightarrow> Inl (ValueError (''Function '' @ function_name @ '' not found in ABI''))
      | Some function_abi \<Rightarrow>
          if function_abi = [] then
            Inl (ValueError (''Function '' @ function_name @ '' not found in ABI''))
          else Inr
            [(''function'', PStr function_name),
             (''args'', PTuple args),
             (''abi'', PDict function_abi)])"

text \<open>
  The address loop of \<^verbatim>\<open>validate_signer_configuration\<close>: it returns \<^verbatim>\<open>False\<close> at the
  first signer that does not start with \<^verbatim>\<open>0x\<close> or is not 42 characters long.
\<close>

fun check_addresses :: "string list \<Rightarrow> bool" where
  "check_addresses [] = True"
| "check_addresses (signer # signers) =
     (if \<not> startswith signer ''0x'' \<or> length signer \<noteq> 42 then False
      else check_addresses signers)"

definition validate_signer_configuration :: "string list \<Rightarrow> int \<Rightarrow> bool" where
  "validate_signer_configuration signers threshold =
     (if signers = [] then False
      else if threshold \<le> 0 \<or> threshold > int (length signers) then False
      else if length signers \<noteq> card (set signers) then False
      else check_addresses signers)"

definition RTAProxyContract_estimate_deployment_gas ::
  "contract \<Rightarrow> string list \<Rightarrow> int \<Rightarrow> int" where
  "RTAProxyContract_estimate_deployment_gas self signers required_signatures =
     (let base_gas = 500000;
          per_signer_gas = 50000
      in base_gas + int (length signers) * per_signer_gas)"

section \<open>The artifact loader\<close>

text \<open>
  The loader reads the file system. Its environment is the artifacts directory the module
  computed when it was imported and, for every path, what is found there: nothing, a
  file that exists and cannot be opened, a file that is not JSON, or a JSON document.
  \<^verbatim>\<open>ARTIFACTS_DIR / rel\<close> joins the directory and the relative path with a slash.
\<close>

datatype file_state = NoFile | Unreadable | NotJSON | JSONFile pyval

record env =
  ARTIFACTS_DIR :: string
  files :: "string \<Rightarrow> file_state"

definition path_join :: "string \<Rightarrow> string \<Rightarrow> string" where
  "path_join dir rel = dir @ ''/'' @ rel"

definition CONTRACT_PATHS :: "(string \<times> string) list" where
  "CONTRACT_PATHS =
     [(''RTAProxy'', ''RTAProxy.sol/RTAProxy.json''),
      (''ERC1450'', ''ERC1450.sol/ERC1450.json''),
      (''RTAProxyUpgradeable'',
         ''upgradeable/RTAProxyUpgradeable.sol/RTAProxyUpgradeable.json''),
      (''ERC1450Upgradeable'',
         ''upgradeable/ERC1450Upgradeable.sol/ERC1450Upgradeable.json''),
      (''IERC1450'', ''interfaces/IERC1450.sol/IERC1450.json'')]"

text \<open>
  \<^verbatim>\<open>load_artifact\<close>: the name is looked up in the table as it is; then the file must
  exist, open and parse.
\<close>

definition load_artifact :: "env \<Rightarrow> string \<Rightarrow> exn + pyval" where
  "load_artifact e contract_name =
     (if contract_name \<notin> set (map fst CONTRACT_PATHS) then
        (let available = join '', '' (map fst CONTRACT_PATHS)
         in Inl (ValueError
              (''Unknown contract: '' @ contract_name @ ''. ''
               @ ''Available contracts: '' @ available)))
      else
        (case map_of CONTRACT_PATHS contract_name of
           None \<Rightarrow> Inl (KeyError contract_name)
         | Some rel \<Rightarrow>
            (let artifact_path = path_join (ARTIFACTS_DIR e) rel
             in case files e artifact_path of
                  NoFile \<Rightarrow>
                    Inl (FileNotFoundError
                      (''Artifact file not found: '' @ artifact_path @ [CHR 0x0A]
                       @ ''Make sure the contracts have been compiled with ''
                       @ [CHR 0x27] @ ''npm run compile'' @ [CHR 0x27]))
                | Unreadable \<Rightarrow> Inl OSError
                | NotJSON \<Rightarrow> Inl JSONDecodeError
                | JSONFile artifact \<Rightarrow> Inr artifact)))"

definition list_available_contracts :: "string list" where
  "list_available_contracts = map fst CONTRACT_PATHS"

text \<open>
  \<^verbatim>\<open>except (FileNotFoundError, ValueError)\<close>: the two classes and the subclass of
  \<^verbatim>\<open>ValueError\<close> that \<^verbatim>\<open>json.load\<close> raises.
\<close>

fun caught :: "exn \<Rightarrow> bool" where
  "caught (ValueError _) = True"
| "caught (FileNotFoundError _) = True"
| "caught JSONDecodeError = True"
| "caught OSError = False"
| "caught (KeyError _) = False"
| "caught OverflowError = False"

text \<open>
  The loop of \<^verbatim>\<open>validate_artifacts\<close> over the table's names, with the \<^verbatim>\<open>status\<close>
  dictionary it fills; an exception the \<^verbatim>\<open>except\<close> clause does not name leaves the
  function.
\<close>

fun validate_loop :: "env \<Rightarrow> string list \<Rightarrow> (string \<times> bool) list \<Rightarrow> exn + (string \<times> bool) list" where
  "validate_loop e [] status = Inr status"
| "validate_loop e (contract_name # names) status =
     (case load_artifact e contract_name of
        Inr artifact \<Rightarrow> validate_loop e names (AList.update contract_name True status)
      | Inl err \<Rightarrow>
          if caught err then validate_loop e names (AList.update contract_name False status)
          else Inl err)"

definition validate_artifacts :: "env \<Rightarrow> exn + (string \<times> bool) list" where
  "validate_artifacts e = validate_loop e (map fst CONTRACT_PATHS) []"

section \<open>Properties\<close>

subsection \<open>Auxiliary facts\<close>

lemma startswith_0x_nonempty: "startswith s ''0x'' \<Longrightarrow> s \<noteq> []"
  by (auto simp: startswith_def)

lemma card_set_distinct: "(length xs \<noteq> card (set xs)) = (\<not> distinct xs)"
  using distinct_card [of xs] card_distinct [of xs] by auto

lemma check_addresses_all:
  "check_addresses signers = (\<forall>s\<in>set signers. startswith s ''0x'' \<and> length s = 42)"
  by (induction signers) auto

lemma scan_abi_find:
  "scan_abi kind function_name items
     = find (\<lambda>item. dict_get item ''type'' = PStr kind
                \<and> dict_get item ''name'' = PStr function_name) items"
  by (induction items) auto

lemma scan_abi_None:
  "(scan_abi kind function_name items = None)
     = (\<not> (\<exists>item\<in>set items. dict_get item ''type'' = PStr kind
                \<and> dict_get item ''name'' = PStr function_name))"
  by (induction items) auto

lemma scan_abi_Some:
  "scan_abi kind function_name items = Some item \<Longrightarrow>
     item \<in> set items \<and> dict_get item ''type'' = PStr kind
       \<and> dict_get item ''name'' = PStr function_name"
  by (induction items) (auto split: if_splits)

lemma dict_get_nonempty: "dict_get item k = PStr v \<Longrightarrow> item \<noteq> []"
  by (auto simp: dict_get_def)

lemma join_CONTRACT_PATHS:
  "join '', '' (map fst CONTRACT_PATHS)
     = ''RTAProxy, ERC1450, RTAProxyUpgradeable, ERC1450Upgradeable, IERC1450''"
  by (simp add: CONTRACT_PATHS_def)

lemma validate_loop_caught:
  "\<forall>n\<in>set names. (case load_artifact e n of Inr a \<Rightarrow> True | Inl err \<Rightarrow> caught err) \<Longrightarrow>
   validate_loop e names status
     = Inr (foldl (\<lambda>st n. AList.update n (\<not> isl (load_artifact e n)) st) status names)"
proof (induction names arbitrary: status)
  case Nil
  show ?case by simp
next
  case (Cons n names)
  from Cons.prems have rest:
    "\<forall>n\<in>set names. (case load_artifact e n of Inr a \<Rightarrow> True | Inl err \<Rightarrow> caught err)"
    by simp
  from Cons.prems have here:
    "case load_artifact e n of Inr a \<Rightarrow> True | Inl err \<Rightarrow> caught err"
    by simp
  show ?case
  proof (cases "load_artifact e n")
    case (Inl err)
    with here have "caught err" by simp
    with Inl show ?thesis by (simp add: Cons.IH [OF rest])
  next
    case (Inr a)
    then show ?thesis by (simp add: Cons.IH [OF rest])
  qed
qed

subsection \<open>Constructor parameters of the token\<close>

text \<open>
  C1. The token wrapper's \<open>encode_constructor_params\<close> raises a \<open>ValueError\<close> exactly
  when the name is empty, or the symbol is empty, or the decimals are below 0 or above 18,
  or the total supply is not positive, or the RTA address does not start with \<open>0x\<close>, or
  its length is not 42; otherwise it returns the dictionary with exactly the five keys
  \<open>_name\<close>, \<open>_symbol\<close>, \<open>_decimals\<close>, \<open>_totalSupply\<close>, \<open>_rta\<close>, holding the arguments.
  With a name and a symbol, decimals of 19 fail with the range error of the decimals;
  with decimals in range too, a total supply of 0 fails with the range error of the
  supply.
\<close>

theorem ERC1450Contract_encode_constructor_params_spec:
  "((\<exists>msg. ERC1450Contract_encode_constructor_params self name symbol decimals total_supply
        rta_address = Inl (ValueError msg))
      \<longleftrightarrow> (name = [] \<or> symbol = [] \<or> decimals < 0 \<or> decimals > 18 \<or> total_supply \<le> 0
          \<or> \<not> startswith rta_address ''0x'' \<or> length rta_address \<noteq> 42))
   \<and> (\<not> (name = [] \<or> symbol = [] \<or> decimals < 0 \<or> decimals > 18 \<or> total_supply \<le> 0
          \<or> \<not> startswith rta_address ''0x'' \<or> length rta_address \<noteq> 42)
      \<longrightarrow> ERC1450Contract_encode_constructor_params self name symbol decimals total_supply
        rta_address
         = Inr [(''_name'', PStr name), (''_symbol'', PStr symbol),
                (''_decimals'', PInt decimals), (''_totalSupply'', PInt total_supply),
                (''_rta'', PStr rta_address)])
   \<and> (name \<noteq> [] \<and> symbol \<noteq> []
      \<longrightarrow> ERC1450Contract_encode_constructor_params self name symbol 19 total_supply
             rta_address = Inl (ValueError ''Decimals must be between 0 and 18''))
   \<and> (name \<noteq> [] \<and> symbol \<noteq> [] \<and> 0 \<le> decimals \<and> decimals \<le> 18
      \<longrightarrow> ERC1450Contract_encode_constructor_params self name symbol decimals 0
             rta_address = Inl (ValueError ''Total supply must be greater than 0''))"
  using startswith_0x_nonempty [of rta_address]
  by (auto simp: ERC1450Contract_encode_constructor_params_def)

theorem ERC1450Contract_encode_constructor_params_spec_witness:
  "ERC1450Contract_encode_constructor_params \<lparr>abi = [], bytecode = ''0x''\<rparr>
      ''T'' ''T'' 18 1 ''0x1111111111111111111111111111111111111111''
     = Inr [(''_name'', PStr ''T''), (''_symbol'', PStr ''T''), (''_decimals'', PInt 18),
            (''_totalSupply'', PInt 1),
            (''_rta'', PStr ''0x1111111111111111111111111111111111111111'')]
   \<and> ERC1450Contract_encode_constructor_params \<lparr>abi = [], bytecode = ''0x''\<rparr>
      ''T'' ''T'' 19 1 ''0x1111111111111111111111111111111111111111''
     = Inl (ValueError ''Decimals must be between 0 and 18'')
   \<and> ERC1450Contract_encode_constructor_params \<lparr>abi = [], bytecode = ''0x''\<rparr>
      ''T'' ''T'' 18 0 ''0x1111111111111111111111111111111111111111''
     = Inl (ValueError ''Total supply must be greater than 0'')"
proof -
  note t = ERC1450Contract_encode_constructor_params_spec [of "\<lparr>abi = [], bytecode = ''0x''\<rparr>" "''T''" "''T''" 18 1
        "''0x1111111111111111111111111111111111111111''"]
  have ok: "\<not> (''T'' = [] \<or> ''T'' = [] \<or> (18::int) < 0 \<or> (18::int) > 18 \<or> (1::int) \<le> 0
          \<or> \<not> startswith ''0x1111111111111111111111111111111111111111'' ''0x''
          \<or> length ''0x1111111111111111111111111111111111111111'' \<noteq> 42)"
    by (simp add: startswith_def)
  from t ok show ?thesis by simp
qed

subsection \<open>Token amounts\<close>

text \<open>
  The model of rounding is the one intended: \<open>expo\<close> is the binary exponent, and a
  rounded number is within half a unit in the last place of the exact one.
\<close>

lemma bit_length_nonneg: "0 \<le> bit_length i"
proof (induction i rule: bit_length.induct)
  case (1 i)
  show ?case
  proof (cases "i \<le> 0")
    case True
    then show ?thesis by (subst bit_length.simps) simp
  next
    case False
    with 1 have "0 \<le> bit_length (i div 2)" by simp
    with False show ?thesis by (subst bit_length.simps) simp
  qed
qed

lemma bit_length_pos: "0 < i \<Longrightarrow> 1 \<le> bit_length i"
  using bit_length_nonneg [of "i div 2"] by (subst bit_length.simps) simp

lemma bit_length_bounds:
  "0 < i \<Longrightarrow> 2 ^ nat (bit_length i - 1) \<le> i \<and> i < 2 ^ nat (bit_length i)"
proof (induction i rule: bit_length.induct)
  case (1 i)
  have bl: "bit_length i = 1 + bit_length (i div 2)"
    using 1(2) by (subst bit_length.simps) simp
  show ?case
  proof (cases "i = 1")
    case True
    have "bit_length (1 div 2) = 0" by (subst bit_length.simps) simp
    with True bl show ?thesis by simp
  next
    case False
    with 1 have h: "0 < i div 2" by simp
    from 1 have nz: "\<not> i \<le> 0" by simp
    from 1(1) [OF nz h] have lo: "2 ^ nat (bit_length (i div 2) - 1) \<le> i div 2"
      and hi: "i div 2 < 2 ^ nat (bit_length (i div 2))" by simp_all
    from bit_length_pos [OF h] have p: "1 \<le> bit_length (i div 2)" .
    have e1: "nat (bit_length i - 1) = Suc (nat (bit_length (i div 2) - 1))"
      using bl p by simp
    have e2: "nat (bit_length i) = Suc (nat (bit_length (i div 2)))"
      using bl p by simp
    from lo have "2 * 2 ^ nat (bit_length (i div 2) - 1) \<le> i" by simp
    moreover from hi have "i < 2 * 2 ^ nat (bit_length (i div 2))" by simp
    ultimately show ?thesis by (simp only: e1 e2 power_Suc)
  qed
qed

lemma expo_bounds:
  assumes "q \<noteq> 0"
  shows "2 powi expo q \<le> \<bar>q\<bar> \<and> \<bar>q\<bar> < 2 powi (expo q + 1)"
proof -
  obtain a b where ab: "quotient_of \<bar>q\<bar> = (a, b)"
    by (cases "quotient_of \<bar>q\<bar>") auto
  from quotient_of_denom_pos [OF ab] have b: "0 < b" .
  from quotient_of_div [OF ab] have q: "\<bar>q\<bar> = of_int a / of_int b" .
  from assms have "0 < \<bar>q\<bar>" by simp
  with q b have a: "0 < a"
    by (simp add: zero_less_divide_iff)
  define na where "na = nat (bit_length a)"
  define nb where "nb = nat (bit_length b)"
  from bit_length_pos [OF a] have pa: "1 \<le> bit_length a" .
  from bit_length_pos [OF b] have pb: "1 \<le> bit_length b" .
  from pa have la: "bit_length a = int na" by (simp add: na_def)
  from pb have lb: "bit_length b = int nb" by (simp add: nb_def)
  from pa have ha: "nat (bit_length a - 1) = na - 1" unfolding na_def by arith
  from pb have hb: "nat (bit_length b - 1) = nb - 1" unfolding nb_def by arith
  from pa have na1: "1 \<le> na" unfolding na_def by arith
  from pb have nb1: "1 \<le> nb" unfolding nb_def by arith
  from bit_length_bounds [OF a] have a1: "2 ^ (na - 1) \<le> a" and a2: "a < 2 ^ na"
    unfolding ha na_def [symmetric] by blast+
  from bit_length_bounds [OF b] have b1: "2 ^ (nb - 1) \<le> b" and b2: "b < 2 ^ nb"
    unfolding hb nb_def [symmetric] by blast+
  let ?k = "int na - int nb"
  have ra1: "(2::rat) ^ (na - 1) \<le> of_int a" and ra2: "(of_int a :: rat) < 2 ^ na"
    and rb1: "(2::rat) ^ (nb - 1) \<le> of_int b" and rb2: "(of_int b :: rat) < 2 ^ nb"
    using a1 a2 b1 b2 by (metis of_int_le_iff of_int_less_iff of_int_numeral of_int_power)+
  have rb: "(0::rat) < of_int b" using b by simp
  have ra0: "(0::rat) < of_int a" using a by simp
  have eu: "?k + 1 = int na - int (nb - 1)" using nb1 by simp
  have el: "?k - 1 = int (na - 1) - int nb" using na1 by simp
  have pu: "(2::rat) powi (?k + 1) = 2 ^ na / 2 ^ (nb - 1)"
    unfolding eu by (simp add: power_int_diff)
  have pl: "(2::rat) powi (?k - 1) = 2 ^ (na - 1) / 2 ^ nb"
    unfolding el by (simp add: power_int_diff)
  have "of_int a / of_int b < (2::rat) ^ na / 2 ^ (nb - 1)"
    by (rule frac_less) (use ra0 ra2 rb1 in simp_all)
  with q pu have up: "\<bar>q\<bar> < 2 powi (?k + 1)" by simp
  have "(2::rat) ^ (na - 1) / 2 ^ nb < of_int a / of_int b"
    by (rule frac_less2) (use ra1 rb rb2 in simp_all)
  with q pl have low: "2 powi (?k - 1) < \<bar>q\<bar>" by simp
  show ?thesis
    using up low
    by (auto simp: expo_def Let_def ab la lb)
qed


lemma round_half_even_nearest: "\<bar>of_int (round_half_even q) - q\<bar> \<le> 1 / 2"
proof -
  have "of_int \<lfloor>q\<rfloor> \<le> q" "q < of_int \<lfloor>q\<rfloor> + 1" by linarith+
  then show ?thesis
    by (auto simp: round_half_even_def Let_def)
qed

lemma round64_half_ulp:
  assumes "round64 q = Some r"
  shows "\<bar>r - q\<bar> \<le> 2 powi (max (expo q - 52) (- 1074)) / 2"
proof (cases "q = 0")
  case True
  with assms show ?thesis by (simp add: round64_def)
next
  case False
  let ?u = "(2::rat) powi (max (expo q - 52) (- 1074))"
  have u: "0 < ?u" by simp
  from assms False have r: "r = of_int (round_half_even (q / ?u)) * ?u"
    by (simp add: round64_def Let_def split: if_splits)
  have "\<bar>r - q\<bar> = \<bar>of_int (round_half_even (q / ?u)) - q / ?u\<bar> * ?u"
  proof -
    have "r - q = (of_int (round_half_even (q / ?u)) - q / ?u) * ?u"
      using u by (simp add: r field_simps)
    then show ?thesis using u by (simp add: abs_mult)
  qed
  also have "\<dots> \<le> (1 / 2) * ?u"
    using round_half_even_nearest [of "q / ?u"] u
    by (intro mult_right_mono) simp_all
  finally show ?thesis by simp
qed







subsection \<open>Preparing a transaction\<close>

text \<open>
  The lookup of \<open>prepare_transaction\<close>, for both wrappers: it fails exactly when the ABI
  has no entry whose \<open>type\<close> is \<open>function\<close> and whose \<open>name\<close> is the requested one, and
  then with the not-found \<open>ValueError\<close>. Otherwise the returned dictionary holds the
  requested name under \<open>function\<close>, the positional arguments as they were passed under
  \<open>args\<close>, and under \<open>abi\<close> the first such entry of the ABI, whose name is the requested
  one. The arguments are not checked against the entry.
\<close>

lemma prepare_transaction_lookup:
  "((\<exists>err. ERC1450Contract_prepare_transaction self function_name args kwargs = Inl err)
      \<longleftrightarrow> \<not> (\<exists>item\<in>set (abi self). dict_get item ''type'' = PStr ''function''
                \<and> dict_get item ''name'' = PStr function_name))
   \<and> (\<forall>err. ERC1450Contract_prepare_transaction self function_name args kwargs = Inl err
      \<longrightarrow> err = ValueError (''Function '' @ function_name @ '' not found in ABI''))
   \<and> (\<forall>r. ERC1450Contract_prepare_transaction self function_name args kwargs = Inr r
      \<longrightarrow> (\<exists>item.
            find (\<lambda>item. dict_get item ''type'' = PStr ''function''
                    \<and> dict_get item ''name'' = PStr function_name) (abi self) = Some item
            \<and> item \<in> set (abi self)
            \<and> dict_get item ''type'' = PStr ''function''
            \<and> dict_get item ''name'' = PStr function_name
            \<and> r = [(''function'', PStr function_name), (''args'', PTuple args),
                   (''abi'', PDict item)]))
   \<and> RTAProxyContract_prepare_transaction self function_name args kwargs
       = ERC1450Contract_prepare_transaction self function_name args kwargs"
proof -
  let ?P = "\<lambda>item. dict_get item ''type'' = PStr ''function''
                \<and> dict_get item ''name'' = PStr function_name"
  show ?thesis
  proof (cases "scan_abi ''function'' function_name (abi self)")
    case None
    then have "\<not> (\<exists>item\<in>set (abi self). ?P item)"
      by (simp add: scan_abi_None)
    with None show ?thesis
      by (simp add: ERC1450Contract_prepare_transaction_def
          RTAProxyContract_prepare_transaction_def)
  next
    case (Some item)
    from scan_abi_Some [OF Some] have m: "item \<in> set (abi self)" "?P item"
      by simp_all
    from m(2) have ne: "item \<noteq> []"
      by (auto dest: dict_get_nonempty)
    from Some have f: "find ?P (abi self) = Some item"
      by (simp add: scan_abi_find)
    from m have ex: "\<exists>item\<in>set (abi self). ?P item"
      by blast
    from Some ne f m ex show ?thesis
      by (simp add: ERC1450Contract_prepare_transaction_def
          RTAProxyContract_prepare_transaction_def)
  qed
qed


text \<open>
  C3. The docstring of \<open>prepare_transaction\<close> documents the keyword arguments as
  additional parameters of the prepared transaction. Called on an ABI with the function
  \<open>mint\<close>, with the positional arguments \<open>0xA\<close> and 5 and the keyword argument
  \<open>gas = 21000\<close>, both wrappers return the dictionary of \<open>function\<close>, \<open>args\<close> and
  \<open>abi\<close> alone: the keyword argument is in none of its values, and the dictionary has
  no further key.
\<close>

theorem prepare_transaction_drops_kwargs:
  "ERC1450Contract_prepare_transaction
     \<lparr>abi = [[(''type'', PStr ''function''), (''name'', PStr ''mint'')]], bytecode = ''0x''\<rparr>
     ''mint'' [PStr ''0xA'', PInt 5] [(''gas'', PInt 21000)]
    = Inr [(''function'', PStr ''mint''), (''args'', PTuple [PStr ''0xA'', PInt 5]),
           (''abi'', PDict [(''type'', PStr ''function''), (''name'', PStr ''mint'')])]
   \<and> RTAProxyContract_prepare_transaction
     \<lparr>abi = [[(''type'', PStr ''function''), (''name'', PStr ''mint'')]], bytecode = ''0x''\<rparr>
     ''mint'' [PStr ''0xA'', PInt 5] [(''gas'', PInt 21000)]
    = Inr [(''function'', PStr ''mint''), (''args'', PTuple [PStr ''0xA'', PInt 5]),
           (''abi'', PDict [(''type'', PStr ''function''), (''name'', PStr ''mint'')])]"
  by (simp add: ERC1450Contract_prepare_transaction_def
      RTAProxyContract_prepare_transaction_def dict_get_def)

subsection \<open>The convenience methods of the token\<close>

text \<open>
  C8. \<open>prepare_transfer_function\<close>, \<open>prepare_mint_function\<close> and
  \<open>prepare_burn_function\<close> are \<open>prepare_transaction\<close> for the names \<open>transfer\<close>,
  \<open>mint\<close> and \<open>burn\<close>, with their own arguments as the positional arguments, in order,
  and no keyword argument.
\<close>

theorem prepare_shortcuts:
  "prepare_transfer_function self from_address to_address amount
     = ERC1450Contract_prepare_transaction self ''transfer''
         [PStr from_address, PStr to_address, PInt amount] []
   \<and> prepare_mint_function self to_address amount
     = ERC1450Contract_prepare_transaction self ''mint'' [PStr to_address, PInt amount] []
   \<and> prepare_burn_function self from_address amount
     = ERC1450Contract_prepare_transaction self ''burn'' [PStr from_address, PInt amount] []"
  by (simp add: prepare_transfer_function_def prepare_mint_function_def
      prepare_burn_function_def)

theorem prepare_shortcuts_witness:
  "prepare_transfer_function
     \<lparr>abi = [[(''type'', PStr ''function''), (''name'', PStr ''transfer'')]],
      bytecode = ''0x''\<rparr> ''0xA'' ''0xB'' 5
    = Inr [(''function'', PStr ''transfer''),
           (''args'', PTuple [PStr ''0xA'', PStr ''0xB'', PInt 5]),
           (''abi'', PDict [(''type'', PStr ''function''), (''name'', PStr ''transfer'')])]
   \<and> prepare_mint_function
     \<lparr>abi = [[(''type'', PStr ''function''), (''name'', PStr ''transfer'')]],
      bytecode = ''0x''\<rparr> ''0xB'' 5
    = Inl (ValueError ''Function mint not found in ABI'')
   \<and> prepare_burn_function
     \<lparr>abi = [[(''type'', PStr ''function''), (''name'', PStr ''transfer'')]],
      bytecode = ''0x''\<rparr> ''0xA'' 5
    = Inl (ValueError ''Function burn not found in ABI'')"
  using prepare_shortcuts [of "\<lparr>abi = [[(''type'', PStr ''function''), (''name'', PStr ''transfer'')]],
      bytecode = ''0x''\<rparr>" "''0xA''" "''0xB''" 5]
  by (simp add: ERC1450Contract_prepare_transaction_def dict_get_def)

subsection \<open>The signers of the proxy\<close>

text \<open>
  C4. \<open>validate_signer_configuration\<close> returns \<open>True\<close> exactly when the list of signers
  is not empty and has no duplicate, every signer starts with \<open>0x\<close> and is 42 characters
  long, and the threshold is at least 1 and at most the number of signers.
\<close>

theorem validate_signer_configuration_iff:
  "validate_signer_configuration signers threshold
     = (signers \<noteq> [] \<and> distinct signers
        \<and> (\<forall>s\<in>set signers. startswith s ''0x'' \<and> length s = 42)
        \<and> 1 \<le> threshold \<and> threshold \<le> int (length signers))"
  by (auto simp: validate_signer_configuration_def card_set_distinct check_addresses_all)

text \<open>
  Three distinct addresses: a threshold of 2 is valid, thresholds of 4 and 0 are not, and
  a repeated address is not.
\<close>

theorem validate_signer_configuration_iff_witness:
  "validate_signer_configuration
     [''0x1111111111111111111111111111111111111111'',
      ''0x2222222222222222222222222222222222222222'',
      ''0x3333333333333333333333333333333333333333''] 2
   \<and> \<not> validate_signer_configuration
     [''0x1111111111111111111111111111111111111111'',
      ''0x2222222222222222222222222222222222222222'',
      ''0x3333333333333333333333333333333333333333''] 4
   \<and> \<not> validate_signer_configuration
     [''0x1111111111111111111111111111111111111111'',
      ''0x2222222222222222222222222222222222222222'',
      ''0x1111111111111111111111111111111111111111''] 2
   \<and> \<not> validate_signer_configuration
     [''0x1111111111111111111111111111111111111111'',
      ''0x2222222222222222222222222222222222222222'',
      ''0x3333333333333333333333333333333333333333''] 0"
  by (simp add: validate_signer_configuration_iff startswith_def)

text \<open>
  C5. The proxy wrapper's \<open>encode_constructor_params\<close> raises a \<open>ValueError\<close> exactly
  when there is no signer, or the required signatures are not positive, or exceed the
  number of signers, or a signer is repeated; otherwise it returns the dictionary of the
  signers and the required signatures.
\<close>

theorem RTAProxyContract_encode_constructor_params_spec:
  "((\<exists>msg. RTAProxyContract_encode_constructor_params self signers required_signatures
        = Inl (ValueError msg))
     \<longleftrightarrow> (signers = [] \<or> required_signatures \<le> 0
          \<or> required_signatures > int (length signers) \<or> \<not> distinct signers))
   \<and> (\<not> (signers = [] \<or> required_signatures \<le> 0
          \<or> required_signatures > int (length signers) \<or> \<not> distinct signers)
     \<longrightarrow> RTAProxyContract_encode_constructor_params self signers required_signatures
        = Inr [(''_signers'', PList (map PStr signers)),
               (''_requiredSignatures'', PInt required_signatures)])"
  by (auto simp: RTAProxyContract_encode_constructor_params_def card_set_distinct)

theorem RTAProxyContract_encode_constructor_params_spec_witness:
  "RTAProxyContract_encode_constructor_params \<lparr>abi = [], bytecode = ''0x''\<rparr>
      [''0xA'', ''0xB''] 2
    = Inr [(''_signers'', PList [PStr ''0xA'', PStr ''0xB'']),
           (''_requiredSignatures'', PInt 2)]
   \<and> (\<exists>msg. RTAProxyContract_encode_constructor_params \<lparr>abi = [], bytecode = ''0x''\<rparr>
      [''0xA'', ''0xB''] 3 = Inl (ValueError msg))"
  using RTAProxyContract_encode_constructor_params_spec [of "\<lparr>abi = [], bytecode = ''0x''\<rparr>" "[''0xA'', ''0xB'']" 2]
        RTAProxyContract_encode_constructor_params_spec [of "\<lparr>abi = [], bytecode = ''0x''\<rparr>" "[''0xA'', ''0xB'']" 3]
  by simp

text \<open>
  C9. The proxy wrapper's \<open>encode_constructor_params\<close> does not look at the shape of the
  signers: for the signers \<open>alice\<close> and \<open>bob\<close>, neither of which starts with \<open>0x\<close> or is
  42 characters long, and a threshold of 1 or 2, it returns the signers as they were
  passed, while \<open>validate_signer_configuration\<close> returns \<open>False\<close> for the same signers
  and threshold.
\<close>

theorem encode_constructor_params_no_address_check:
  "RTAProxyContract_encode_constructor_params self [''alice'', ''bob''] 1
     = Inr [(''_signers'', PList [PStr ''alice'', PStr ''bob'']),
            (''_requiredSignatures'', PInt 1)]
   \<and> RTAProxyContract_encode_constructor_params self [''alice'', ''bob''] 2
     = Inr [(''_signers'', PList [PStr ''alice'', PStr ''bob'']),
            (''_requiredSignatures'', PInt 2)]
   \<and> \<not> startswith ''alice'' ''0x'' \<and> length ''alice'' \<noteq> 42
   \<and> \<not> startswith ''bob'' ''0x'' \<and> length ''bob'' \<noteq> 42
   \<and> \<not> validate_signer_configuration [''alice'', ''bob''] 1
   \<and> \<not> validate_signer_configuration [''alice'', ''bob''] 2"
  by (simp add: RTAProxyContract_encode_constructor_params_def
      validate_signer_configuration_def startswith_def)

theorem encode_constructor_params_no_address_check_witness:
  "RTAProxyContract_encode_constructor_params \<lparr>abi = [], bytecode = ''0x''\<rparr>
      [''alice'', ''bob''] 2
     = Inr [(''_signers'', PList [PStr ''alice'', PStr ''bob'']),
            (''_requiredSignatures'', PInt 2)]
   \<and> \<not> validate_signer_configuration [''alice'', ''bob''] 2"
  using encode_constructor_params_no_address_check [of "\<lparr>abi = [], bytecode = ''0x''\<rparr>"]
  by simp

subsection \<open>Gas estimates\<close>

text \<open>
  C7. The token's estimate is 2000000 plus 1000 for each character of the name and of
  the symbol; the proxy's is 500000 plus 50000 for each signer, whatever the wrapper
  object and the required signatures are. Both are functions of their arguments alone.
\<close>

theorem estimate_deployment_gas_formula:
  "ERC1450Contract_estimate_deployment_gas self name symbol
     = 2000000 + (int (length name) + int (length symbol)) * 1000
   \<and> RTAProxyContract_estimate_deployment_gas self' signers required_signatures
     = 500000 + int (length signers) * 50000
   \<and> RTAProxyContract_estimate_deployment_gas self' signers required_signatures
     = RTAProxyContract_estimate_deployment_gas self'' signers required_signatures'"
  by (simp add: ERC1450Contract_estimate_deployment_gas_def
      RTAProxyContract_estimate_deployment_gas_def)

theorem estimate_deployment_gas_formula_witness:
  "ERC1450Contract_estimate_deployment_gas \<lparr>abi = [], bytecode = ''0x''\<rparr> ''StartEngine Token'' ''SET'' = 2020000
   \<and> RTAProxyContract_estimate_deployment_gas \<lparr>abi = [], bytecode = ''0x''\<rparr> [''a'', ''b'', ''c''] 2 = 650000"
  using estimate_deployment_gas_formula [of "\<lparr>abi = [], bytecode = ''0x''\<rparr>" "''StartEngine Token''" "''SET''"
      "\<lparr>abi = [], bytecode = ''0x''\<rparr>" "[''a'', ''b'', ''c'']" 2]
  by simp

subsection \<open>The loader\<close>

text \<open>
  C6. For a name that is not a key of the table, \<open>load_artifact\<close> raises the
  \<open>ValueError\<close> of an unknown contract, whatever the file system holds. The name is
  compared as it is: \<open>rtaproxy\<close> and \<open>RTAProxy\<close> followed by a space are unknown.
\<close>

theorem load_artifact_unknown:
  "contract_name \<notin> set list_available_contracts \<Longrightarrow>
   load_artifact e contract_name
     = Inl (ValueError (''Unknown contract: '' @ contract_name
         @ ''. Available contracts: RTAProxy, ERC1450, RTAProxyUpgradeable, ERC1450Upgradeable, IERC1450''))"
  by (simp add: load_artifact_def list_available_contracts_def join_CONTRACT_PATHS)

theorem load_artifact_unknown_witness:
  "(\<forall>e. load_artifact e ''rtaproxy''
     = Inl (ValueError ''Unknown contract: rtaproxy. Available contracts: RTAProxy, ERC1450, RTAProxyUpgradeable, ERC1450Upgradeable, IERC1450''))
   \<and> (\<forall>e. load_artifact e ''RTAProxy ''
     = Inl (ValueError ''Unknown contract: RTAProxy . Available contracts: RTAProxy, ERC1450, RTAProxyUpgradeable, ERC1450Upgradeable, IERC1450''))"
proof -
  have a: "''rtaproxy'' \<notin> set list_available_contracts"
    by (simp add: list_available_contracts_def CONTRACT_PATHS_def)
  have b: "''RTAProxy '' \<notin> set list_available_contracts"
    by (simp add: list_available_contracts_def CONTRACT_PATHS_def)
  show ?thesis using load_artifact_unknown [OF a] load_artifact_unknown [OF b] by simp
qed

text \<open>
  C10. When \<open>load_artifact\<close>, for every name of the table, succeeds or fails with a
  \<open>ValueError\<close> or a \<open>FileNotFoundError\<close>, \<open>validate_artifacts\<close> returns: its
  dictionary has the names of the table as its keys, those that
  \<open>list_available_contracts\<close> returns, in the table's order, and each name is mapped to
  \<open>True\<close> if \<open>load_artifact\<close> succeeds for it and to \<open>False\<close> if it fails.
\<close>

theorem validate_artifacts_status:
  "(\<forall>n\<in>set list_available_contracts. \<forall>err. load_artifact e n = Inl err
        \<longrightarrow> (\<exists>msg. err = ValueError msg) \<or> (\<exists>msg. err = FileNotFoundError msg))
   \<Longrightarrow> validate_artifacts e
         = Inr (map (\<lambda>n. (n, \<not> isl (load_artifact e n))) list_available_contracts)
       \<and> (\<exists>status. validate_artifacts e = Inr status
            \<and> map fst status = list_available_contracts
            \<and> set (map fst status) = set list_available_contracts
            \<and> (\<forall>n\<in>set list_available_contracts.
                  map_of status n = Some (\<not> isl (load_artifact e n))))"
proof -
  assume h: "\<forall>n\<in>set list_available_contracts. \<forall>err. load_artifact e n = Inl err
        \<longrightarrow> (\<exists>msg. err = ValueError msg) \<or> (\<exists>msg. err = FileNotFoundError msg)"
  have c: "\<forall>n\<in>set (map fst CONTRACT_PATHS).
      (case load_artifact e n of Inr a \<Rightarrow> True | Inl err \<Rightarrow> caught err)"
  proof
    fix n assume n: "n \<in> set (map fst CONTRACT_PATHS)"
    show "case load_artifact e n of Inr a \<Rightarrow> True | Inl err \<Rightarrow> caught err"
    proof (cases "load_artifact e n")
      case (Inl err)
      from n have "n \<in> set list_available_contracts"
        by (simp add: list_available_contracts_def)
      with h Inl have "(\<exists>msg. err = ValueError msg) \<or> (\<exists>msg. err = FileNotFoundError msg)"
        by blast
      with Inl show ?thesis by auto
    next
      case (Inr a)
      then show ?thesis by simp
    qed
  qed
  have closed: "validate_artifacts e
         = Inr (map (\<lambda>n. (n, \<not> isl (load_artifact e n))) list_available_contracts)"
    unfolding validate_artifacts_def validate_loop_caught [OF c]
    by (simp add: list_available_contracts_def CONTRACT_PATHS_def)
  have d: "distinct list_available_contracts"
    by (simp add: list_available_contracts_def CONTRACT_PATHS_def)
  have keys: "map fst (map (\<lambda>n. (n, \<not> isl (load_artifact e n))) list_available_contracts)
      = list_available_contracts"
    by (simp add: comp_def)
  have look: "\<forall>n\<in>set list_available_contracts.
      map_of (map (\<lambda>n. (n, \<not> isl (load_artifact e n))) list_available_contracts) n
        = Some (\<not> isl (load_artifact e n))"
    by (simp add: map_of_map_restrict)
  from closed keys look show ?thesis
    by (simp add: image_image)
qed

theorem validate_artifacts_status_witness:
  "validate_artifacts
     \<lparr>ARTIFACTS_DIR = ''/pkg/data/artifacts'',
      files = (\<lambda>p. if p = ''/pkg/data/artifacts/RTAProxy.sol/RTAProxy.json''
                   then JSONFile (PDict [(''abi'', PList []), (''bytecode'', PStr ''0x'')])
                   else NoFile)\<rparr>
    = Inr [(''RTAProxy'', True), (''ERC1450'', False), (''RTAProxyUpgradeable'', False),
           (''ERC1450Upgradeable'', False), (''IERC1450'', False)]"
proof -
  let ?e = "\<lparr>ARTIFACTS_DIR = ''/pkg/data/artifacts'',
      files = (\<lambda>p. if p = ''/pkg/data/artifacts/RTAProxy.sol/RTAProxy.json''
                   then JSONFile (PDict [(''abi'', PList []), (''bytecode'', PStr ''0x'')])
                   else NoFile)\<rparr>"
  have l1: "load_artifact ?e ''RTAProxy''
      = Inr (PDict [(''abi'', PList []), (''bytecode'', PStr ''0x'')])"
    by (simp add: load_artifact_def CONTRACT_PATHS_def path_join_def)
  have l2: "\<exists>msg. load_artifact ?e ''ERC1450'' = Inl (FileNotFoundError msg)"
    by (simp add: load_artifact_def CONTRACT_PATHS_def path_join_def)
  have l3: "\<exists>msg. load_artifact ?e ''RTAProxyUpgradeable'' = Inl (FileNotFoundError msg)"
    by (simp add: load_artifact_def CONTRACT_PATHS_def path_join_def)
  have l4: "\<exists>msg. load_artifact ?e ''ERC1450Upgradeable'' = Inl (FileNotFoundError msg)"
    by (simp add: load_artifact_def CONTRACT_PATHS_def path_join_def)
  have l5: "\<exists>msg. load_artifact ?e ''IERC1450'' = Inl (FileNotFoundError msg)"
    by (simp add: load_artifact_def CONTRACT_PATHS_def path_join_def)
  have names: "list_available_contracts
      = [''RTAProxy'', ''ERC1450'', ''RTAProxyUpgradeable'', ''ERC1450Upgradeable'', ''IERC1450'']"
    by (simp add: list_available_contracts_def CONTRACT_PATHS_def)
  have h: "\<forall>n\<in>set list_available_contracts. \<forall>err. load_artifact ?e n = Inl err
        \<longrightarrow> (\<exists>msg. err = ValueError msg) \<or> (\<exists>msg. err = FileNotFoundError msg)"
    unfolding names using l1 l2 l3 l4 l5 by auto
  from validate_artifacts_status [OF h] have "validate_artifacts ?e
         = Inr (map (\<lambda>n. (n, \<not> isl (load_artifact ?e n))) list_available_contracts)"
    by blast
  also have "\<dots> = Inr [(''RTAProxy'', True), (''ERC1450'', False), (''RTAProxyUpgradeable'', False),
           (''ERC1450Upgradeable'', False), (''IERC1450'', False)]"
    unfolding names using l1 l2 l3 l4 l5 by auto
  finally show ?thesis .
qed

end
